theory Spec2Isabelle
  imports Main
begin

section \<open>The Azure Service Bus source adapter (adapter.go)\<close>

text \<open>
  A shallow embedding of \<^verbatim>\<open>pkg/sources/adapter/azureservicebussource/adapter.go\<close>.
  Go strings are \<^typ>\<open>string\<close>, a nil pointer or a nil error is \<open>None\<close>, every
  \<^verbatim>\<open>return nil, err\<close> is a branch \<open>Inl err\<close>.  The collaborators the adapter calls
  through interfaces or library functions (the message processor, the CloudEvents client,
  the event validation of the CloudEvents SDK, the completion action of the Service Bus
  SDK, the JSON decoder of the resource ID, the two namespace options of the Service Bus
  SDK, the process environment) are parameters of the model.
\<close>

subsection \<open>Errors\<close>

text \<open>
  \<^verbatim>\<open>protocol.Result\<close> of the CloudEvents SDK is an error value; a result is an
  acknowledgment when it is nil or wraps \<^verbatim>\<open>protocol.ResultACK\<close>.  A non-nil result
  is modelled by whether it wraps the ACK result, and its message.
\<close>

datatype result = Result bool string

fun IsACK :: "result option \<Rightarrow> bool" where
  "IsACK None = True"
| "IsACK (Some (Result ack _)) = ack"

fun resultText :: "result \<Rightarrow> string" where
  "resultText (Result _ s) = s"

text \<open>
  The errors adapter.go builds, one constructor for each \<^verbatim>\<open>fmt.Errorf\<close> or
  \<^verbatim>\<open>errors.New\<close> of the file; \<open>Opaque\<close> is an error returned by a collaborator, known by
  its message only.
\<close>

datatype error =
    Opaque string
  | Deserializing error
  | NotServiceBusEntity
  | Processing string error
  | FailedToSend string result
  | SendingToSink "error list"
  | NeitherAuth error error

fun joinSp :: "string list \<Rightarrow> string" where
  "joinSp [] = []"
| "joinSp [x] = x"
| "joinSp (x # y # ys) = x @ '' '' @ joinSp (y # ys)"

text \<open>
  \<^verbatim>\<open>errList.Error\<close>: the empty string for no error, else \<^verbatim>\<open>fmt.Sprintf("%q", e.errs)\<close>,
  which prints the messages of the errors, each quoted by \<^verbatim>\<open>strconv.Quote\<close> (the
  parameter \<open>quote\<close>), separated by spaces, between brackets.  The argument is the list of
  the messages of \<^verbatim>\<open>e.errs\<close>.
\<close>

definition errList_Error :: "(string \<Rightarrow> string) \<Rightarrow> string list \<Rightarrow> string" where
  "errList_Error quote errs =
     (if length errs = 0 then '''' else ''['' @ joinSp (map quote errs) @ '']'')"

text \<open>The message of an error (its \<^verbatim>\<open>Error()\<close>), following the format strings.\<close>

fun Error :: "(string \<Rightarrow> string) \<Rightarrow> error \<Rightarrow> string" where
  "Error quote (Opaque s) = s"
| "Error quote (Deserializing e) = ''deserializing resource ID string: '' @ Error quote e"
| "Error quote NotServiceBusEntity = ''resource ID does not refer to a Service Bus entity''"
| "Error quote (Processing msgid e) =
     ''processing Service Bus message with ID '' @ msgid @ '': '' @ Error quote e"
| "Error quote (FailedToSend evid r) =
     ''failed to send event with ID '' @ evid @ '': '' @ resultText r"
| "Error quote (SendingToSink errs) =
     ''sending events to the sink: '' @ errList_Error quote (map (Error quote) errs)"
| "Error quote (NeitherAuth aadErr sasErr) =
     ''neither Azure Active Directory nor SAS token provider could be built - '' @
     ''AAD error: '' @ Error quote aadErr @ '', SAS error: '' @ Error quote sasErr"

subsection \<open>Resource IDs\<close>

text \<open>
  Modelled from the spec: the declaration of \<^verbatim>\<open>v1alpha1.AzureResourceID\<close> and its JSON
  decoder are not among the sources.  The record has the fields the spec's data model
  lists for a resource locator, under the names adapter.go reads them by.
\<close>

record AzureResourceID =
  ResourceProvider :: string
  Namespace :: string
  ResourceType :: string
  ResourceName :: string
  SubResourceType :: string
  SubResourceName :: string

definition resourceProviderServiceBus :: string where
  "resourceProviderServiceBus = ''Microsoft.ServiceBus''"

definition resourceTypeQueues :: string where
  "resourceTypeQueues = ''queues''"

definition resourceTypeTopics :: string where
  "resourceTypeTopics = ''topics''"

definition resourceTypeSubscriptions :: string where
  "resourceTypeSubscriptions = ''subscriptions''"

text \<open>
  \<^verbatim>\<open>parseServiceBusResourceID\<close>.  The parameter \<open>unmarshal\<close> is the decoding
  \<^verbatim>\<open>json.Unmarshal([]byte(strconv.Quote(resIDStr)), resID)\<close>: the decoded resource ID, or
  the decoder's error.  In the condition, Go's \<^verbatim>\<open>&&\<close> binds tighter than \<^verbatim>\<open>||\<close>.
\<close>

definition parseServiceBusResourceID ::
  "(string \<Rightarrow> error + AzureResourceID) \<Rightarrow> string \<Rightarrow> error + AzureResourceID" where
  "parseServiceBusResourceID unmarshal resIDStr =
     (case unmarshal resIDStr of
        Inl err \<Rightarrow> Inl (Deserializing err)
      | Inr resID \<Rightarrow>
          if ResourceProvider resID \<noteq> resourceProviderServiceBus \<or>
             Namespace resID = '''' \<or>
             (ResourceType resID \<noteq> resourceTypeQueues \<and> ResourceType resID \<noteq> resourceTypeTopics) \<or>
             (ResourceType resID = resourceTypeQueues \<and> SubResourceType resID \<noteq> '''') \<or>
             (ResourceType resID = resourceTypeTopics \<and>
                SubResourceType resID \<noteq> resourceTypeSubscriptions)
          then Inl NotServiceBusEntity
          else Inr resID)"

text \<open>\<^verbatim>\<open>entityPath\<close>: a switch on the resource type, first matching case.\<close>

definition entityPath :: "AzureResourceID \<Rightarrow> string" where
  "entityPath entityID =
     (if ResourceType entityID = resourceTypeQueues then ResourceName entityID
      else if ResourceType entityID = resourceTypeTopics
        then ResourceName entityID @ ''/Subscriptions/'' @ SubResourceName entityID
      else '''')"

subsection \<open>Authentication from the environment\<close>

definition envKeyName :: string where
  "envKeyName = ''SERVICEBUS_KEY_NAME''"

definition envKeyValue :: string where
  "envKeyValue = ''SERVICEBUS_KEY_VALUE''"

definition envConnStr :: string where
  "envConnStr = ''SERVICEBUS_CONNECTION_STRING''"

text \<open>
  \<^verbatim>\<open>connectionStringFromEnvironment\<close>.  \<open>getenv\<close> is \<^verbatim>\<open>os.Getenv\<close> (the empty string for
  an unset variable); \<open>suffix\<close> is \<^verbatim>\<open>azure.PublicCloud.ServiceBusEndpointSuffix\<close>, a
  constant of the go-autorest library.  \<^verbatim>\<open>fmt.Sprintf\<close> with \<^verbatim>\<open>%s\<close> verbs on strings is
  concatenation.
\<close>

definition connectionStringFromEnvironment ::
  "string \<Rightarrow> (string \<Rightarrow> string) \<Rightarrow> string \<Rightarrow> string \<Rightarrow> string" where
  "connectionStringFromEnvironment suffix getenv namespace entPath =
     (let connStr = getenv envConnStr;
          keyName = getenv envKeyName;
          keyValue = getenv envKeyValue
      in if keyName \<noteq> '''' \<or> keyValue \<noteq> ''''
         then ''Endpoint=sb://'' @ namespace @ ''.'' @ suffix @
              '';SharedAccessKeyName='' @ keyName @
              '';SharedAccessKey='' @ keyValue @
              '';EntityPath='' @ entPath
         else connStr)"

text \<open>
  \<^verbatim>\<open>namespaceFromEnvironment\<close> returns a namespace option: a function that configures the
  namespace object it is given and returns an error or nil.  The namespace object is the
  state \<open>'ns\<close>; \<open>withConnectionString\<close> is \<^verbatim>\<open>servicebus.NamespaceWithConnectionString\<close> and
  \<open>withEnvironmentBinding\<close> is \<^verbatim>\<open>servicebus.NamespaceWithEnvironmentBinding\<close>, each
  returning its error and the namespace as it leaves it.
\<close>

definition namespaceFromEnvironment ::
  "string \<Rightarrow> (string \<Rightarrow> string) \<Rightarrow>
   (string \<Rightarrow> 'ns \<Rightarrow> error option \<times> 'ns) \<Rightarrow> (string \<Rightarrow> 'ns \<Rightarrow> error option \<times> 'ns) \<Rightarrow>
   AzureResourceID \<Rightarrow> 'ns \<Rightarrow> error option \<times> 'ns" where
  "namespaceFromEnvironment suffix getenv withConnectionString withEnvironmentBinding entityID ns =
     (let connStr = connectionStringFromEnvironment suffix getenv
                      (Namespace entityID) (entityPath entityID)
      in case withConnectionString connStr ns of
           (None, ns1) \<Rightarrow> (None, ns1)
         | (Some sasErr, ns1) \<Rightarrow>
             (case withEnvironmentBinding (Namespace entityID) ns1 of
                (None, ns2) \<Rightarrow> (None, ns2)
              | (Some aadErr, ns2) \<Rightarrow> (Some (NeitherAuth aadErr sasErr), ns2)))"

subsection \<open>Messages, events and the collaborators of the handler\<close>

text \<open>A Service Bus message: the handler reads its ID only.\<close>

record message =
  msgID :: string
  msgData :: string

text \<open>
  A CloudEvent, by the context attributes of the CloudEvents SDK.  \<^verbatim>\<open>SetDataSchema\<close> of
  the SDK removes the attribute when it is given the empty string, the only argument the
  adapter calls it with.
\<close>

record event =
  ID :: string
  Source :: string
  Type :: string
  DataSchema :: "string option"
  Data :: string

definition SetDataSchema :: "string \<Rightarrow> event \<Rightarrow> event" where
  "SetDataSchema v e = e\<lparr>DataSchema := (if v = '''' then None else Some v)\<rparr>"

text \<open>
  \<^verbatim>\<open>event.ValidationError\<close> is a Go map from attribute names to errors; the list is the
  order in which a \<^verbatim>\<open>range\<close> loop happens to visit its entries.
\<close>

type_synonym ValidationError = "(string \<times> string) list"

text \<open>
  The calls the handler makes to its collaborators, recorded in the order they are made;
  the record is what the theorems about side effects speak of.
\<close>

datatype call =
    CallProcess message
  | CallValidate event
  | CallSend event
  | CallComplete message

text \<open>
  The state a handler runs in: the state \<open>'w\<close> of the outside world (the event sink and
  the broker), which the sends and the completion read and change, and the calls made so
  far.
\<close>

record 'w state =
  world :: 'w
  calls :: "call list"

text \<open>
  The collaborators: \<open>Process\<close> is \<^verbatim>\<open>a.msgPrcsr.Process\<close>, \<open>Validate\<close> is \<^verbatim>\<open>ev.Validate\<close>
  (nil or a validation error), \<open>Send\<close> is \<^verbatim>\<open>a.ceClient.Send\<close>, and \<open>Complete\<close> is the
  disposition action \<^verbatim>\<open>messageCompleteFunc(msg)\<close> run on the context.  \<open>Process\<close> and
  \<open>Validate\<close> depend on their argument only; a non-nil error of \<^verbatim>\<open>ev.Validate\<close> is always
  an \<^verbatim>\<open>event.ValidationError\<close> in the SDK, so the type assertion of the loop is not a branch.
  The events a processor returns are taken to be non-nil and distinct objects.
\<close>

record 'w adapter =
  Process :: "message \<Rightarrow> error + event list"
  Validate :: "event \<Rightarrow> ValidationError option"
  Send :: "event \<Rightarrow> 'w \<Rightarrow> result option \<times> 'w"
  Complete :: "message \<Rightarrow> 'w \<Rightarrow> error option \<times> 'w"

text \<open>\<^verbatim>\<open>sanitizeEvent\<close>: the loop over the entries of the validation error.\<close>

fun sanitizeEvent :: "ValidationError \<Rightarrow> event \<Rightarrow> event" where
  "sanitizeEvent [] origEvent = origEvent"
| "sanitizeEvent ((attr, _) # validErrs) origEvent =
     sanitizeEvent validErrs
       (if attr = ''dataschema'' then SetDataSchema '''' origEvent else origEvent)"

text \<open>\<^verbatim>\<open>sendCloudEvent\<close>: the result when it is not an ACK, nil otherwise.\<close>

definition sendCloudEvent :: "'w adapter \<Rightarrow> event \<Rightarrow> 'w state \<Rightarrow> result option \<times> 'w state" where
  "sendCloudEvent a ev st =
     (let (res, w) = Send a ev (world st);
          st' = \<lparr>world = w, calls = calls st @ [CallSend ev]\<rparr>
      in if \<not> IsACK res then (res, st') else (None, st'))"

text \<open>
  The body of the loop of \<^verbatim>\<open>handleMessage\<close> for one event: validate, sanitize on a
  validation error, send, and append to the errors on a failed send.  The event is a
  pointer and \<^verbatim>\<open>sanitizeEvent\<close> changes it in place: the first component is the event as
  the iteration leaves it.
\<close>

definition handleEvent ::
  "'w adapter \<Rightarrow> event \<Rightarrow> error list \<times> 'w state \<Rightarrow> event \<times> error list \<times> 'w state" where
  "handleEvent a ev0 acc =
     (let (errs, st) = acc;
          st1 = st\<lparr>calls := calls st @ [CallValidate ev0]\<rparr>;
          ev = (case Validate a ev0 of
                  Some validErrs \<Rightarrow> sanitizeEvent validErrs ev0
                | None \<Rightarrow> ev0);
          (err, st2) = sendCloudEvent a ev st1
      in case err of
           Some res \<Rightarrow> (ev, errs @ [FailedToSend (ID ev) res], st2)
         | None \<Rightarrow> (ev, errs, st2))"

text \<open>The loop \<^verbatim>\<open>for _, ev := range events\<close>, with the events as it leaves them.\<close>

fun sendEvents ::
  "'w adapter \<Rightarrow> event list \<Rightarrow> error list \<times> 'w state \<Rightarrow> event list \<times> error list \<times> 'w state" where
  "sendEvents a [] acc = ([], acc)"
| "sendEvents a (ev # events) acc =
     (let (ev', acc') = handleEvent a ev acc;
          (events', acc'') = sendEvents a events acc'
      in (ev' # events', acc''))"

text \<open>\<^verbatim>\<open>handleMessage\<close>; the message is a pointer, nil is \<open>None\<close>.\<close>

definition handleMessage ::
  "'w adapter \<Rightarrow> message option \<Rightarrow> 'w state \<Rightarrow> error option \<times> 'w state" where
  "handleMessage a msgp st =
     (case msgp of
        None \<Rightarrow> (None, st)
      | Some msg \<Rightarrow>
          let st0 = st\<lparr>calls := calls st @ [CallProcess msg]\<rparr> in
          (case Process a msg of
             Inl err \<Rightarrow> (Some (Processing (msgID msg) err), st0)
           | Inr events \<Rightarrow>
               let (events', sendErrs, st1) = sendEvents a events ([], st0) in
               if length sendErrs \<noteq> 0 then (Some (SendingToSink sendErrs), st1)
               else
                 let (err, w) = Complete a msg (world st1)
                 in (err, \<lparr>world = w, calls = calls st1 @ [CallComplete msg]\<rparr>)))"

subsection \<open>Notions the properties are stated with\<close>

text \<open>The event an iteration of the loop sends for the event \<open>ev\<close> of the message.\<close>

definition sanitized :: "'w adapter \<Rightarrow> event \<Rightarrow> event" where
  "sanitized a ev =
     (case Validate a ev of Some validErrs \<Rightarrow> sanitizeEvent validErrs ev | None \<Rightarrow> ev)"

text \<open>The world after the events \<open>sent\<close> have been sent one after the other from \<open>w\<close>.\<close>

definition worldAfter :: "'w adapter \<Rightarrow> 'w \<Rightarrow> event list \<Rightarrow> 'w" where
  "worldAfter a w sent = foldl (\<lambda>w e. snd (Send a e w)) w sent"

text \<open>
  The entry of the error batch for one send in the world \<open>w\<close>: none when the sink's result
  is an ACK, else the event's ID with the result.
\<close>

definition sendFailure :: "'w adapter \<Rightarrow> event \<Rightarrow> 'w \<Rightarrow> error list" where
  "sendFailure a ev w =
     (case fst (Send a ev w) of
        None \<Rightarrow> []
      | Some (Result ack txt) \<Rightarrow>
          if ack then [] else [FailedToSend (ID ev) (Result ack txt)])"

text \<open>
  The entries for the events \<open>sent\<close>, by position: the event at position \<open>i\<close> is sent in
  the world the sends of the \<open>i\<close> events before it have left.
\<close>

definition sendFailures :: "'w adapter \<Rightarrow> 'w \<Rightarrow> event list \<Rightarrow> error list" where
  "sendFailures a w sent =
     concat (map (\<lambda>i. sendFailure a (sent ! i) (worldAfter a w (take i sent)))
       [0..<length sent])"

text \<open>
  The same by ID and text: for every send that is not acknowledged, in the order of the
  events, the ID of the event and the message of the sink's result.
\<close>

definition failedSend :: "'w adapter \<Rightarrow> event \<Rightarrow> 'w \<Rightarrow> (string \<times> string) list" where
  "failedSend a ev w =
     (case fst (Send a ev w) of
        None \<Rightarrow> []
      | Some (Result ack txt) \<Rightarrow> if ack then [] else [(ID ev, txt)])"

definition failedSends :: "'w adapter \<Rightarrow> 'w \<Rightarrow> event list \<Rightarrow> (string \<times> string) list" where
  "failedSends a w sent =
     concat (map (\<lambda>i. failedSend a (sent ! i) (worldAfter a w (take i sent)))
       [0..<length sent])"

text \<open>The calls of the loop for the events of a message: a validation and a send each.\<close>

definition eventCalls :: "'w adapter \<Rightarrow> event list \<Rightarrow> call list" where
  "eventCalls a events =
     concat (map (\<lambda>ev. [CallValidate ev, CallSend (sanitized a ev)]) events)"

text \<open>The messages completed and the events sent, as a call record tells.\<close>

fun completions :: "call list \<Rightarrow> message list" where
  "completions [] = []"
| "completions (CallComplete m # cs) = m # completions cs"
| "completions (_ # cs) = completions cs"

fun sends :: "call list \<Rightarrow> event list" where
  "sends [] = []"
| "sends (CallSend e # cs) = e # sends cs"
| "sends (_ # cs) = sends cs"

subsection \<open>Example inputs\<close>

text \<open>
  A message, three events (the first and the third with the data schema \<^verbatim>\<open>#\<close> that Azure
  Event Grid sends, the third with no source either), a validation that rejects that data
  schema and an empty source, and four sinks whose world is the list of the events they
  have accepted: one acknowledges every event, one times out on the event \<^verbatim>\<open>e2\<close>, one
  refuses the event \<^verbatim>\<open>e1\<close>, one refuses \<^verbatim>\<open>e1\<close> and times out on every other event.
\<close>

definition exampleMessage :: message where
  "exampleMessage = \<lparr>msgID = ''m1'', msgData = ''body''\<rparr>"

definition exampleEvent1 :: event where
  "exampleEvent1 =
     \<lparr>ID = ''e1'', Source = ''src'', Type = ''t'', DataSchema = Some ''#'', Data = ''d1''\<rparr>"

definition exampleEvent2 :: event where
  "exampleEvent2 =
     \<lparr>ID = ''e2'', Source = ''src'', Type = ''t'', DataSchema = None, Data = ''d2''\<rparr>"

definition exampleEvent3 :: event where
  "exampleEvent3 =
     \<lparr>ID = ''e3'', Source = '''', Type = ''t'', DataSchema = Some ''#'', Data = ''d3''\<rparr>"

definition exampleValidate :: "event \<Rightarrow> ValidationError option" where
  "exampleValidate e =
     (let errs = (if Source e = '''' then [(''source'', ''REQUIRED'')] else []) @
                 (if DataSchema e = Some ''#''
                  then [(''dataschema'', ''if present, MUST adhere to the format specified in RFC 3986'')]
                  else [])
      in if errs = [] then None else Some errs)"

definition ackSink :: "event \<Rightarrow> event list \<Rightarrow> result option \<times> event list" where
  "ackSink e w = (None, w @ [e])"

definition timeoutSink :: "event \<Rightarrow> event list \<Rightarrow> result option \<times> event list" where
  "timeoutSink e w =
     (if ID e = ''e2'' then (Some (Result False ''timeout''), w) else (None, w @ [e]))"


definition failingSink :: "event \<Rightarrow> event list \<Rightarrow> result option \<times> event list" where
  "failingSink e w =
     (if ID e = ''e1'' then (Some (Result False ''refused''), w)
      else (Some (Result False ''timeout''), w))"

text \<open>
  \<^verbatim>\<open>strconv.Quote\<close> on the strings of the examples, which are made of printable ASCII
  characters: the string between double quotes, a backslash before a double quote or a
  backslash.  (On control and non-ASCII characters \<^verbatim>\<open>strconv.Quote\<close> does more.)
\<close>

definition quotePrintable :: "string \<Rightarrow> string" where
  "quotePrintable s =
     [CHR 0x22] @
     concat (map (\<lambda>c. if c = CHR 0x22 \<or> c = CHR 0x5C then [CHR 0x5C, c] else [c]) s) @
     [CHR 0x22]"

definition exampleAdapter ::
  "(event \<Rightarrow> event list \<Rightarrow> result option \<times> event list) \<Rightarrow> event list adapter" where
  "exampleAdapter sink =
     \<lparr>Process = (\<lambda>m. if msgData m = '''' then Inl (Opaque ''empty body'')
                      else Inr [exampleEvent1, exampleEvent2]),
      Validate = exampleValidate,
      Send = sink,
      Complete = (\<lambda>m w. (None, w))\<rparr>"

definition exampleState :: "event list state" where
  "exampleState = \<lparr>world = [], calls = []\<rparr>"

text \<open>
  Resource IDs as a decoder may return them: a queue, a topic subscription, a queue with
  no namespace, and a queue of another resource provider.
\<close>

definition exampleQueue :: AzureResourceID where
  "exampleQueue =
     \<lparr>ResourceProvider = ''Microsoft.ServiceBus'', Namespace = ''ns1'',
      ResourceType = ''queues'', ResourceName = ''q1'',
      SubResourceType = '''', SubResourceName = ''''\<rparr>"

definition exampleSubscription :: AzureResourceID where
  "exampleSubscription =
     \<lparr>ResourceProvider = ''Microsoft.ServiceBus'', Namespace = ''ns1'',
      ResourceType = ''topics'', ResourceName = ''t1'',
      SubResourceType = ''subscriptions'', SubResourceName = ''s1''\<rparr>"

definition exampleNoNamespace :: AzureResourceID where
  "exampleNoNamespace = exampleQueue\<lparr>Namespace := ''''\<rparr>"

definition exampleOtherProvider :: AzureResourceID where
  "exampleOtherProvider = exampleQueue\<lparr>ResourceProvider := ''Microsoft.EventHub''\<rparr>"

text \<open>
  A decoder for four resource ID strings, laid out as the comment in
  \<^verbatim>\<open>parseServiceBusResourceID\<close> gives the patterns; it stands for the JSON decoder of the
  resource ID in the examples.
\<close>

definition exampleUnmarshal :: "string \<Rightarrow> error + AzureResourceID" where
  "exampleUnmarshal s =
     (if s = ''/subscriptions/s/resourceGroups/rg/providers/Microsoft.ServiceBus/namespaces/ns1/queues/q1''
        then Inr exampleQueue
      else if s = ''/subscriptions/s/resourceGroups/rg/providers/Microsoft.ServiceBus/namespaces/ns1/topics/t1/subscriptions/s1''
        then Inr exampleSubscription
      else if s = ''/subscriptions/s/resourceGroups/rg/providers/Microsoft.ServiceBus/queues/q1''
        then Inr exampleNoNamespace
      else if s = ''/subscriptions/s/resourceGroups/rg/providers/Microsoft.EventHub/namespaces/ns1/queues/q1''
        then Inr exampleOtherProvider
      else Inl (Opaque ''resource ID contains invalid segments''))"

text \<open>
  Environments: one with the key name set, no key value, and a connection string; one with
  the key name, the key value and a connection string; one with no variable set.
\<close>

definition exampleEnv :: "string \<Rightarrow> string" where
  "exampleEnv v =
     (if v = ''SERVICEBUS_KEY_NAME'' then ''RootManageSharedAccessKey''
      else if v = ''SERVICEBUS_CONNECTION_STRING'' then ''Endpoint=sb://other.example''
      else '''')"

definition keyPairEnv :: "string \<Rightarrow> string" where
  "keyPairEnv v =
     (if v = ''SERVICEBUS_KEY_NAME'' then ''RootManageSharedAccessKey''
      else if v = ''SERVICEBUS_KEY_VALUE'' then ''c2VjcmV0''
      else if v = ''SERVICEBUS_CONNECTION_STRING'' then ''Endpoint=sb://other.example''
      else '''')"

definition noEnv :: "string \<Rightarrow> string" where
  "noEnv v = ''''"

text \<open>
  Namespace options whose namespace object is the list of the bindings made: a
  connection-string option that rejects the empty connection string, an environment
  binding that succeeds and one that finds no credentials.
\<close>

definition exampleSAS :: "string \<Rightarrow> string list \<Rightarrow> error option \<times> string list" where
  "exampleSAS connStr ns =
     (if connStr = '''' then (Some (Opaque ''connection string is either blank or malformed''), ns)
      else (None, ns @ [''SAS '' @ connStr]))"

definition exampleAAD :: "string \<Rightarrow> string list \<Rightarrow> error option \<times> string list" where
  "exampleAAD namespace ns = (None, ns @ [''AAD '' @ namespace])"

definition failingAAD :: "string \<Rightarrow> string list \<Rightarrow> error option \<times> string list" where
  "failingAAD namespace ns = (Some (Opaque ''missing AZURE_TENANT_ID''), ns)"

section \<open>Properties\<close>

subsection \<open>The sanitizer\<close>

lemma SetDataSchema_empty: "SetDataSchema '''' e = e\<lparr>DataSchema := None\<rparr>"
  by (simp add: SetDataSchema_def)

lemma sanitizeEvent_eq:
  "sanitizeEvent validErrs ev =
     (if ''dataschema'' \<in> fst ` set validErrs then ev\<lparr>DataSchema := None\<rparr> else ev)"
  by (induction validErrs ev rule: sanitizeEvent.induct) (auto simp: SetDataSchema_empty)

lemma sanitized_cases:
  "sanitized a ev = ev \<or> sanitized a ev = ev\<lparr>DataSchema := None\<rparr>"
  by (simp add: sanitized_def sanitizeEvent_eq split: option.splits)

text \<open>Sanitizing what has been sanitized changes nothing, whatever the validation says.\<close>

lemma sanitized_idem: "sanitized a (sanitized a ev) = sanitized a ev"
proof (cases "Validate a ev")
  case None
  then show ?thesis by (simp add: sanitized_def)
next
  case (Some v)
  show ?thesis
  proof (cases "''dataschema'' \<in> fst ` set v")
    case True
    with Some have "sanitized a ev = ev\<lparr>DataSchema := None\<rparr>"
      by (simp add: sanitized_def sanitizeEvent_eq)
    moreover have "sanitized a (ev\<lparr>DataSchema := None\<rparr>) = ev\<lparr>DataSchema := None\<rparr>"
      using sanitized_cases [of a "ev\<lparr>DataSchema := None\<rparr>"] by auto
    ultimately show ?thesis by simp
  next
    case False
    with Some have "sanitized a ev = ev" by (simp add: sanitized_def sanitizeEvent_eq)
    then show ?thesis by simp
  qed
qed

subsection \<open>One send, one iteration, the loop\<close>

lemma sendCloudEvent_eq:
  "sendCloudEvent a ev st =
     (if IsACK (fst (Send a ev (world st))) then None else fst (Send a ev (world st)),
      \<lparr>world = snd (Send a ev (world st)), calls = calls st @ [CallSend ev]\<rparr>)"
  by (simp add: sendCloudEvent_def split: prod.splits)

lemma sendFailure_eq:
  "sendFailure a ev w =
     (if IsACK (fst (Send a ev w)) then []
      else [FailedToSend (ID ev) (the (fst (Send a ev w)))])"
  by (simp add: sendFailure_def split: option.splits result.splits)

lemma handleEvent_eq:
  "handleEvent a ev (errs, st) =
     (sanitized a ev, errs @ sendFailure a (sanitized a ev) (world st),
      \<lparr>world = snd (Send a (sanitized a ev) (world st)),
       calls = calls st @ [CallValidate ev, CallSend (sanitized a ev)]\<rparr>)"
  by (auto simp: handleEvent_def sendCloudEvent_eq sendFailure_eq sanitized_def Let_def
      split: option.splits prod.splits)

lemma worldAfter_Nil: "worldAfter a w [] = w"
  by (simp add: worldAfter_def)

lemma worldAfter_Cons: "worldAfter a w (e # es) = worldAfter a (snd (Send a e w)) es"
  by (simp add: worldAfter_def)

lemma sendFailures_Nil: "sendFailures a w [] = []"
  by (simp add: sendFailures_def)

lemma sendFailures_Cons:
  "sendFailures a w (e # es) = sendFailure a e w @ sendFailures a (snd (Send a e w)) es"
proof -
  have "[0..<length (e # es)] = 0 # map Suc [0..<length es]"
    by (simp add: upt_conv_Cons map_Suc_upt del: upt_Suc)
  then show ?thesis
    by (simp add: sendFailures_def worldAfter_Cons worldAfter_Nil comp_def del: upt_Suc)
qed

lemma eventCalls_Cons:
  "eventCalls a (ev # evs) = [CallValidate ev, CallSend (sanitized a ev)] @ eventCalls a evs"
  by (simp add: eventCalls_def)

text \<open>
  The loop, in closed form: it leaves every event sanitized, appends the failures of the
  sends to the errors, and makes the calls of every event, in the order of the events.
\<close>

lemma sendEvents_eq:
  "sendEvents a events (errs, st) =
     (map (sanitized a) events,
      errs @ sendFailures a (world st) (map (sanitized a) events),
      \<lparr>world = worldAfter a (world st) (map (sanitized a) events),
       calls = calls st @ eventCalls a events\<rparr>)"
proof (induction events arbitrary: errs st)
  case Nil
  show ?case by (simp add: sendFailures_Nil worldAfter_Nil eventCalls_def)
next
  case (Cons ev events)
  show ?case
    by (simp add: handleEvent_eq Cons.IH sendFailures_Cons worldAfter_Cons eventCalls_Cons)
qed

lemma completions_append: "completions (xs @ ys) = completions xs @ completions ys"
  by (induction xs rule: completions.induct) auto

lemma completions_eventCalls: "completions (eventCalls a events) = []"
  by (induction events) (auto simp: eventCalls_def)

lemma sends_append: "sends (xs @ ys) = sends xs @ sends ys"
  by (induction xs rule: sends.induct) auto


lemma not_IsACK_Some: "\<not> IsACK x \<Longrightarrow> \<exists>r. x = Some r"
  by (cases x) auto

text \<open>
  The error batch has an entry for an event exactly when the send of that event was not
  acknowledged; the entry carries the ID of the event sent and the result of the sink.
\<close>

lemma set_sendFailures:
  "set (sendFailures a w sent) =
     {FailedToSend (ID (sent ! i)) r |i r. i < length sent \<and>
        fst (Send a (sent ! i) (worldAfter a w (take i sent))) = Some r \<and> \<not> IsACK (Some r)}"
  (is "?L = ?R")
proof
  show "?L \<subseteq> ?R"
  proof
    fix e assume "e \<in> ?L"
    then obtain i where i: "i < length sent"
      and e: "e \<in> set (sendFailure a (sent ! i) (worldAfter a w (take i sent)))"
      by (auto simp: sendFailures_def)
    let ?x = "fst (Send a (sent ! i) (worldAfter a w (take i sent)))"
    from e have nack: "\<not> IsACK ?x" and e': "e = FailedToSend (ID (sent ! i)) (the ?x)"
      by (auto simp: sendFailure_eq split: if_splits)
    from nack obtain r where r: "?x = Some r" using not_IsACK_Some by blast
    with i e' nack show "e \<in> ?R" by auto
  qed
next
  show "?R \<subseteq> ?L"
  proof
    fix e assume "e \<in> ?R"
    then obtain i r where i: "i < length sent"
      and r: "fst (Send a (sent ! i) (worldAfter a w (take i sent))) = Some r"
      and nack: "\<not> IsACK (Some r)" and e: "e = FailedToSend (ID (sent ! i)) r"
      by blast
    then have "e \<in> set (sendFailure a (sent ! i) (worldAfter a w (take i sent)))"
      by (simp add: sendFailure_eq)
    with i show "e \<in> ?L" by (auto simp: sendFailures_def)
  qed
qed

lemma sendFailures_empty_iff:
  "sendFailures a w sent = [] \<longleftrightarrow>
     (\<forall>i < length sent. IsACK (fst (Send a (sent ! i) (worldAfter a w (take i sent)))))"
proof -
  have "sendFailures a w sent = [] \<longleftrightarrow>
      (\<forall>i < length sent. sendFailure a (sent ! i) (worldAfter a w (take i sent)) = [])"
    by (auto simp: sendFailures_def)
  also have "\<dots> \<longleftrightarrow>
      (\<forall>i < length sent. IsACK (fst (Send a (sent ! i) (worldAfter a w (take i sent)))))"
    by (auto simp: sendFailure_eq)
  finally show ?thesis .
qed

subsection \<open>The message handler\<close>

text \<open>The handler on a message the processor turns into events, in closed form.\<close>

lemma handleMessage_Inr:
  assumes "Process a msg = Inr events"
  shows "handleMessage a (Some msg) st =
     (let sent = map (sanitized a) events;
          errs = sendFailures a (world st) sent;
          w1 = worldAfter a (world st) sent;
          cs = calls st @ [CallProcess msg] @ eventCalls a events
      in if errs \<noteq> [] then (Some (SendingToSink errs), \<lparr>world = w1, calls = cs\<rparr>)
         else (fst (Complete a msg w1),
               \<lparr>world = snd (Complete a msg w1), calls = cs @ [CallComplete msg]\<rparr>))"
  using assms
  by (simp add: handleMessage_def sendEvents_eq Let_def split: prod.splits)

text \<open>
  C1: when the processor turns the message into events and the sink acknowledges the send
  of every one of them, the error batch of the loop is empty, the handler returns what the
  completion of the message returns (nil, or the error of the completion itself), and it
  completes the message exactly once: the calls it makes are the processing, the calls of
  the events and, last, one completion of this message.
\<close>

theorem handleMessage_all_acked:
  assumes "Process a msg = Inr events"
    and "\<forall>i < length events.
           IsACK (fst (Send a (map (sanitized a) events ! i)
             (worldAfter a (world st) (take i (map (sanitized a) events)))))"
  shows "fst (snd (sendEvents a events ([], st\<lparr>calls := calls st @ [CallProcess msg]\<rparr>))) = [] \<and>
    handleMessage a (Some msg) st =
      (fst (Complete a msg (worldAfter a (world st) (map (sanitized a) events))),
       \<lparr>world = snd (Complete a msg (worldAfter a (world st) (map (sanitized a) events))),
        calls = calls st @ [CallProcess msg] @ eventCalls a events @ [CallComplete msg]\<rparr>) \<and>
    completions (calls (snd (handleMessage a (Some msg) st))) = completions (calls st) @ [msg]"
proof -
  let ?sent = "map (sanitized a) events"
  from assms(2) have empty: "sendFailures a (world st) ?sent = []"
    by (simp add: sendFailures_empty_iff)
  then have batch:
    "fst (snd (sendEvents a events ([], st\<lparr>calls := calls st @ [CallProcess msg]\<rparr>))) = []"
    by (simp add: sendEvents_eq)
  have run: "handleMessage a (Some msg) st =
      (fst (Complete a msg (worldAfter a (world st) ?sent)),
       \<lparr>world = snd (Complete a msg (worldAfter a (world st) ?sent)),
        calls = calls st @ [CallProcess msg] @ eventCalls a events @ [CallComplete msg]\<rparr>)"
    using handleMessage_Inr [OF assms(1), of st] empty by (simp add: Let_def)
  have "completions (calls (snd (handleMessage a (Some msg) st))) = completions (calls st) @ [msg]"
    by (simp add: run completions_append completions_eventCalls)
  with batch run show ?thesis by blast
qed

lemma ID_sanitized: "ID (sanitized a ev) = ID ev"
  using sanitized_cases [of a ev] by auto

lemma example_sanitized1:
  "sanitized (exampleAdapter sink) exampleEvent1 = exampleEvent1\<lparr>DataSchema := None\<rparr>"
  by (simp add: sanitized_def exampleAdapter_def exampleValidate_def exampleEvent1_def
      SetDataSchema_def Let_def)

lemma example_sanitized2: "sanitized (exampleAdapter sink) exampleEvent2 = exampleEvent2"
  by (simp add: sanitized_def exampleAdapter_def exampleValidate_def exampleEvent2_def Let_def)

lemma example_Process:
  "Process (exampleAdapter sink) exampleMessage = Inr [exampleEvent1, exampleEvent2]"
  by (simp add: exampleAdapter_def exampleMessage_def)

theorem handleMessage_all_acked_witness:
  "Process (exampleAdapter ackSink) exampleMessage = Inr [exampleEvent1, exampleEvent2] \<and>
   IsACK (fst (Send (exampleAdapter ackSink) (exampleEvent1\<lparr>DataSchema := None\<rparr>) [])) \<and>
   IsACK (fst (Send (exampleAdapter ackSink) exampleEvent2 [exampleEvent1\<lparr>DataSchema := None\<rparr>])) \<and>
   handleMessage (exampleAdapter ackSink) (Some exampleMessage) exampleState =
     (None,
      \<lparr>world = [exampleEvent1\<lparr>DataSchema := None\<rparr>, exampleEvent2],
       calls = [CallProcess exampleMessage,
                CallValidate exampleEvent1, CallSend (exampleEvent1\<lparr>DataSchema := None\<rparr>),
                CallValidate exampleEvent2, CallSend exampleEvent2,
                CallComplete exampleMessage]\<rparr>) \<and>
   completions (calls (snd (handleMessage (exampleAdapter ackSink) (Some exampleMessage)
     exampleState))) = [exampleMessage]"
proof -
  have acked: "\<forall>i < length [exampleEvent1, exampleEvent2].
      IsACK (fst (Send (exampleAdapter ackSink)
        (map (sanitized (exampleAdapter ackSink)) [exampleEvent1, exampleEvent2] ! i)
        (worldAfter (exampleAdapter ackSink) (world exampleState)
           (take i (map (sanitized (exampleAdapter ackSink)) [exampleEvent1, exampleEvent2])))))"
    by (simp add: exampleAdapter_def ackSink_def)
  have sends: "IsACK (fst (Send (exampleAdapter ackSink) e w))" for e w
    by (simp add: exampleAdapter_def ackSink_def)
  show ?thesis
    using handleMessage_all_acked [OF example_Process acked] sends
    by (simp add: example_Process example_sanitized1 example_sanitized2 eventCalls_def
        worldAfter_def exampleState_def)
      (simp add: exampleAdapter_def ackSink_def)
qed

text \<open>
  The message of the aggregate error, from the IDs and the texts of the failed sends: the
  quoted messages of the entries, in order, separated by spaces, between brackets.
\<close>

lemma sendFailure_failedSend:
  "sendFailure a ev w =
     map (\<lambda>(evid, txt). FailedToSend evid (Result False txt)) (failedSend a ev w)"
  by (simp add: sendFailure_def failedSend_def split: option.splits result.splits)

lemma sendFailures_failedSends:
  "sendFailures a w sent =
     map (\<lambda>(evid, txt). FailedToSend evid (Result False txt)) (failedSends a w sent)"
  by (simp add: sendFailures_def failedSends_def map_concat comp_def sendFailure_failedSend)

lemma joinSp_Cons: "joinSp (x # xs) = x @ concat (map (\<lambda>y. '' '' @ y) xs)"
  by (induction xs arbitrary: x) simp_all

lemma joinSp_contains: "x \<in> set xs \<Longrightarrow> \<exists>pre post. joinSp xs = pre @ x @ post"
proof (induction xs rule: joinSp.induct)
  case 1
  then show ?case by simp
next
  case (2 y)
  then have "joinSp [y] = [] @ x @ []" by simp
  then show ?case by blast
next
  case (3 y z zs)
  show ?case
  proof (cases "x = y")
    case True
    then have "joinSp (y # z # zs) = [] @ x @ ('' '' @ joinSp (z # zs))" by simp
    then show ?thesis by blast
  next
    case False
    with 3 obtain pre post where "joinSp (z # zs) = pre @ x @ post" by auto
    then have "joinSp (y # z # zs) = (y @ '' '' @ pre) @ x @ post" by simp
    then show ?thesis by blast
  qed
qed

lemma Error_SendingToSink_Cons:
  "Error quote (SendingToSink
     (map (\<lambda>(evid, txt). FailedToSend evid (Result False txt)) (f # fs))) =
   ''sending events to the sink: ['' @
   quote (''failed to send event with ID '' @ fst f @ '': '' @ snd f) @
   concat (map (\<lambda>g. '' '' @ quote (''failed to send event with ID '' @ fst g @ '': '' @ snd g)) fs) @
   '']''"
  by (simp add: errList_Error_def joinSp_Cons comp_def case_prod_beta)

lemma Error_SendingToSink_contains:
  assumes "FailedToSend evid (Result ack txt) \<in> set errs"
  shows "\<exists>pre post. Error quote (SendingToSink errs) =
     pre @ quote (''failed to send event with ID '' @ evid @ '': '' @ txt) @ post"
proof -
  from assms have ne: "errs \<noteq> []" by auto
  from assms have "quote (Error quote (FailedToSend evid (Result ack txt))) \<in>
      set (map quote (map (Error quote) errs))"
    by (metis (no_types, lifting) image_eqI list.set_map)
  then obtain pre post where
    "joinSp (map quote (map (Error quote) errs)) =
       pre @ quote (Error quote (FailedToSend evid (Result ack txt))) @ post"
    using joinSp_contains by blast
  then have "Error quote (SendingToSink errs) =
      (''sending events to the sink: ['' @ pre) @
      quote (''failed to send event with ID '' @ evid @ '': '' @ txt) @ (post @ '']'')"
    using ne by (simp add: errList_Error_def)
  then show ?thesis by blast
qed


text \<open>
  C2: when the processor turns the message into events and the send of at least one of them
  is not acknowledged, there is at least one event, the handler returns the aggregate error
  around the error batch of the loop and makes no completion call; the batch has an entry
  exactly for every event whose send was not acknowledged, with the ID of that event and
  the result of the sink.  The message of the returned error is
  \<^verbatim>\<open>sending events to the sink: [\<close>, then for every failed send, in the order of the
  events and separated by spaces, the quoted text \<^verbatim>\<open>failed to send event with ID\<close>, the
  ID of the event, a colon and the message of the sink's result, then \<^verbatim>\<open>]\<close>; so for every
  event whose send was not acknowledged the message contains that quoted text with its ID
  and its cause.  Running the loop again from the same world, on the events as the first
  run has left them, gives the same batch.
\<close>

theorem handleMessage_send_failed:
  assumes "Process a msg = Inr events"
    and "\<exists>i < length events.
           \<not> IsACK (fst (Send a (map (sanitized a) events ! i)
             (worldAfter a (world st) (take i (map (sanitized a) events)))))"
  shows "0 < length events \<and>
    handleMessage a (Some msg) st =
      (Some (SendingToSink (sendFailures a (world st) (map (sanitized a) events))),
       \<lparr>world = worldAfter a (world st) (map (sanitized a) events),
        calls = calls st @ [CallProcess msg] @ eventCalls a events\<rparr>) \<and>
    completions (calls (snd (handleMessage a (Some msg) st))) = completions (calls st) \<and>
    fst (snd (sendEvents a events ([], st\<lparr>calls := calls st @ [CallProcess msg]\<rparr>))) =
      sendFailures a (world st) (map (sanitized a) events) \<and>
    set (sendFailures a (world st) (map (sanitized a) events)) =
      {FailedToSend (ID (events ! i)) r |i r. i < length events \<and>
         fst (Send a (map (sanitized a) events ! i)
           (worldAfter a (world st) (take i (map (sanitized a) events)))) = Some r \<and>
         \<not> IsACK (Some r)} \<and>
    (\<exists>f fs. failedSends a (world st) (map (sanitized a) events) = f # fs \<and>
       Error quote (the (fst (handleMessage a (Some msg) st))) =
         ''sending events to the sink: ['' @
         quote (''failed to send event with ID '' @ fst f @ '': '' @ snd f) @
         concat (map (\<lambda>g. '' '' @
           quote (''failed to send event with ID '' @ fst g @ '': '' @ snd g)) fs) @
         '']'') \<and>
    (\<forall>i ack cause. i < length events \<and>
       fst (Send a (map (sanitized a) events ! i)
         (worldAfter a (world st) (take i (map (sanitized a) events)))) =
         Some (Result ack cause) \<and> \<not> ack \<longrightarrow>
       (\<exists>pre post. Error quote (the (fst (handleMessage a (Some msg) st))) =
          pre @ quote (''failed to send event with ID '' @ ID (events ! i) @ '': '' @ cause) @
          post)) \<and>
    fst (snd (sendEvents a (fst (sendEvents a events ([], st))) ([], st\<lparr>calls := cs\<rparr>))) =
      fst (snd (sendEvents a events ([], st)))"
proof -
  let ?sent = "map (sanitized a) events"
  let ?errs = "sendFailures a (world st) ?sent"
  from assms(2) have nonempty: "?errs \<noteq> []"
    by (auto simp: sendFailures_empty_iff)
  from assms(2) have pos: "0 < length events" by auto
  have run: "handleMessage a (Some msg) st =
      (Some (SendingToSink ?errs),
       \<lparr>world = worldAfter a (world st) ?sent,
        calls = calls st @ [CallProcess msg] @ eventCalls a events\<rparr>)"
    using handleMessage_Inr [OF assms(1), of st] nonempty by (simp add: Let_def)
  have compl: "completions (calls (snd (handleMessage a (Some msg) st))) = completions (calls st)"
    by (simp add: run completions_append completions_eventCalls)
  have batch: "fst (snd (sendEvents a events ([], st\<lparr>calls := calls st @ [CallProcess msg]\<rparr>))) = ?errs"
    by (simp add: sendEvents_eq)
  have enum: "set ?errs =
      {FailedToSend (ID (events ! i)) r |i r. i < length events \<and>
         fst (Send a (?sent ! i) (worldAfter a (world st) (take i ?sent))) = Some r \<and>
         \<not> IsACK (Some r)}"
  proof -
    have idx: "ID (?sent ! i) = ID (events ! i)" if "i < length events" for i
      using that by (simp add: ID_sanitized)
    have "{FailedToSend (ID (?sent ! i)) r |i r. i < length ?sent \<and>
         fst (Send a (?sent ! i) (worldAfter a (world st) (take i ?sent))) = Some r \<and>
         \<not> IsACK (Some r)} =
      {FailedToSend (ID (events ! i)) r |i r. i < length events \<and>
         fst (Send a (?sent ! i) (worldAfter a (world st) (take i ?sent))) = Some r \<and>
         \<not> IsACK (Some r)}"
      by (rule Collect_cong) (metis idx length_map)
    then show ?thesis
      by (simp only: set_sendFailures)
  qed
  have returned: "the (fst (handleMessage a (Some msg) st)) = SendingToSink ?errs"
    by (simp add: run)
  have msg: "\<exists>f fs. failedSends a (world st) ?sent = f # fs \<and>
       Error quote (the (fst (handleMessage a (Some msg) st))) =
         ''sending events to the sink: ['' @
         quote (''failed to send event with ID '' @ fst f @ '': '' @ snd f) @
         concat (map (\<lambda>g. '' '' @
           quote (''failed to send event with ID '' @ fst g @ '': '' @ snd g)) fs) @
         '']''"
  proof -
    from nonempty obtain f fs where ffs: "failedSends a (world st) ?sent = f # fs"
      by (cases "failedSends a (world st) ?sent") (auto simp: sendFailures_failedSends)
    then have "?errs = map (\<lambda>(evid, cause). FailedToSend evid (Result False cause)) (f # fs)"
      by (simp only: sendFailures_failedSends)
    with ffs show ?thesis
      by (simp only: returned Error_SendingToSink_Cons) blast
  qed
  have each: "\<forall>i ack cause. i < length events \<and>
       fst (Send a (?sent ! i) (worldAfter a (world st) (take i ?sent))) =
         Some (Result ack cause) \<and> \<not> ack \<longrightarrow>
       (\<exists>pre post. Error quote (the (fst (handleMessage a (Some msg) st))) =
          pre @ quote (''failed to send event with ID '' @ ID (events ! i) @ '': '' @ cause) @
          post)"
  proof (intro allI impI)
    fix i ack cause
    assume h: "i < length events \<and>
       fst (Send a (?sent ! i) (worldAfter a (world st) (take i ?sent))) =
         Some (Result ack cause) \<and> \<not> ack"
    then have "FailedToSend (ID (events ! i)) (Result ack cause) \<in> set ?errs"
      unfolding enum by auto
    then show "\<exists>pre post. Error quote (the (fst (handleMessage a (Some msg) st))) =
          pre @ quote (''failed to send event with ID '' @ ID (events ! i) @ '': '' @ cause) @
          post"
      unfolding returned by (rule Error_SendingToSink_contains)
  qed
  have idem: "map (sanitized a) ?sent = ?sent"
    by (simp add: sanitized_idem)
  have first: "fst (sendEvents a events ([], st)) = ?sent"
    and first_batch: "fst (snd (sendEvents a events ([], st))) = ?errs"
    by (simp_all add: sendEvents_eq)
  have "fst (snd (sendEvents a ?sent ([], st\<lparr>calls := cs\<rparr>))) =
      sendFailures a (world st) (map (sanitized a) ?sent)"
    by (simp add: sendEvents_eq del: map_map)
  then have again:
    "fst (snd (sendEvents a (fst (sendEvents a events ([], st))) ([], st\<lparr>calls := cs\<rparr>))) =
      fst (snd (sendEvents a events ([], st)))"
    by (simp only: first first_batch idem)
  from pos run compl batch enum msg each again show ?thesis by blast
qed

lemma failedSends_Nil: "failedSends a w [] = []"
  by (simp add: failedSends_def)

lemma failedSends_Cons:
  "failedSends a w (e # es) = failedSend a e w @ failedSends a (snd (Send a e w)) es"
proof -
  have "[0..<length (e # es)] = 0 # map Suc [0..<length es]"
    by (simp add: upt_conv_Cons map_Suc_upt del: upt_Suc)
  then show ?thesis
    by (simp add: failedSends_def worldAfter_Cons worldAfter_Nil comp_def del: upt_Suc)
qed

lemma example_quoted:
  "quotePrintable ''failed to send event with ID e1: refused'' =
     [CHR 0x22] @ ''failed to send event with ID e1: refused'' @ [CHR 0x22]"
  "quotePrintable ''failed to send event with ID e2: timeout'' =
     [CHR 0x22] @ ''failed to send event with ID e2: timeout'' @ [CHR 0x22]"
  by (simp_all add: quotePrintable_def)

theorem handleMessage_send_failed_witness:
  "Process (exampleAdapter timeoutSink) exampleMessage = Inr [exampleEvent1, exampleEvent2] \<and>
   \<not> IsACK (fst (Send (exampleAdapter timeoutSink) exampleEvent2
       [exampleEvent1\<lparr>DataSchema := None\<rparr>])) \<and>
   handleMessage (exampleAdapter timeoutSink) (Some exampleMessage) exampleState =
     (Some (SendingToSink [FailedToSend ''e2'' (Result False ''timeout'')]),
      \<lparr>world = [exampleEvent1\<lparr>DataSchema := None\<rparr>],
       calls = [CallProcess exampleMessage,
                CallValidate exampleEvent1, CallSend (exampleEvent1\<lparr>DataSchema := None\<rparr>),
                CallValidate exampleEvent2, CallSend exampleEvent2]\<rparr>) \<and>
   completions (calls (snd (handleMessage (exampleAdapter timeoutSink) (Some exampleMessage)
     exampleState))) = [] \<and>
   Error quotePrintable (the (fst (handleMessage (exampleAdapter timeoutSink)
     (Some exampleMessage) exampleState))) =
     ''sending events to the sink: ['' @
     [CHR 0x22] @ ''failed to send event with ID e2: timeout'' @ [CHR 0x22] @ '']'' \<and>
   Process (exampleAdapter failingSink) exampleMessage = Inr [exampleEvent1, exampleEvent2] \<and>
   \<not> IsACK (fst (Send (exampleAdapter failingSink) (exampleEvent1\<lparr>DataSchema := None\<rparr>) [])) \<and>
   handleMessage (exampleAdapter failingSink) (Some exampleMessage) exampleState =
     (Some (SendingToSink [FailedToSend ''e1'' (Result False ''refused''),
                           FailedToSend ''e2'' (Result False ''timeout'')]),
      \<lparr>world = [],
       calls = [CallProcess exampleMessage,
                CallValidate exampleEvent1, CallSend (exampleEvent1\<lparr>DataSchema := None\<rparr>),
                CallValidate exampleEvent2, CallSend exampleEvent2]\<rparr>) \<and>
   Error quotePrintable (the (fst (handleMessage (exampleAdapter failingSink)
     (Some exampleMessage) exampleState))) =
     ''sending events to the sink: ['' @
     [CHR 0x22] @ ''failed to send event with ID e1: refused'' @ [CHR 0x22] @ '' '' @
     [CHR 0x22] @ ''failed to send event with ID e2: timeout'' @ [CHR 0x22] @ '']''"
proof -
  let ?a = "exampleAdapter timeoutSink"
  let ?b = "exampleAdapter failingSink"
  let ?e1 = "exampleEvent1\<lparr>DataSchema := None\<rparr>"
  have s1: "Send ?a ?e1 w = (None, w @ [?e1])" for w
    by (simp add: exampleAdapter_def timeoutSink_def exampleEvent1_def)
  have s2: "Send ?a exampleEvent2 w = (Some (Result False ''timeout''), w)" for w
    by (simp add: exampleAdapter_def timeoutSink_def exampleEvent2_def)
  have t1: "Send ?b ?e1 w = (Some (Result False ''refused''), w)" for w
    by (simp add: exampleAdapter_def failingSink_def exampleEvent1_def)
  have t2: "Send ?b exampleEvent2 w = (Some (Result False ''timeout''), w)" for w
    by (simp add: exampleAdapter_def failingSink_def exampleEvent2_def)
  have ids: "ID ?e1 = ''e1''" "ID exampleEvent2 = ''e2''"
    by (simp_all add: exampleEvent1_def exampleEvent2_def)
  have failed_a: "\<exists>i < length [exampleEvent1, exampleEvent2].
      \<not> IsACK (fst (Send ?a (map (sanitized ?a) [exampleEvent1, exampleEvent2] ! i)
        (worldAfter ?a (world exampleState)
           (take i (map (sanitized ?a) [exampleEvent1, exampleEvent2])))))"
    by (rule exI [of _ 1]) (simp add: example_sanitized1 example_sanitized2 s2)
  have failed_b: "\<exists>i < length [exampleEvent1, exampleEvent2].
      \<not> IsACK (fst (Send ?b (map (sanitized ?b) [exampleEvent1, exampleEvent2] ! i)
        (worldAfter ?b (world exampleState)
           (take i (map (sanitized ?b) [exampleEvent1, exampleEvent2])))))"
    by (rule exI [of _ 0]) (simp add: example_sanitized1 t1)
  have errs_a: "sendFailures ?a [] [?e1, exampleEvent2] =
      [FailedToSend ''e2'' (Result False ''timeout'')]"
    by (simp add: sendFailures_Cons sendFailures_Nil sendFailure_eq s1 s2 ids)
  have errs_b: "sendFailures ?b [] [?e1, exampleEvent2] =
      [FailedToSend ''e1'' (Result False ''refused''),
       FailedToSend ''e2'' (Result False ''timeout'')]"
    by (simp add: sendFailures_Cons sendFailures_Nil sendFailure_eq t1 t2 ids)
  have pairs_a: "failedSends ?a [] [?e1, exampleEvent2] = [(''e2'', ''timeout'')]"
    by (simp add: failedSends_Cons failedSends_Nil failedSend_def s1 s2 ids)
  have pairs_b: "failedSends ?b [] [?e1, exampleEvent2] =
      [(''e1'', ''refused''), (''e2'', ''timeout'')]"
    by (simp add: failedSends_Cons failedSends_Nil failedSend_def t1 t2 ids)
  have wa: "worldAfter ?a [] [?e1, exampleEvent2] = [?e1]"
    by (simp add: worldAfter_Cons worldAfter_Nil s1 s2)
  have wb: "worldAfter ?b [] [?e1, exampleEvent2] = []"
    by (simp add: worldAfter_Cons worldAfter_Nil t1 t2)
  note A = handleMessage_send_failed [OF example_Process failed_a, of quotePrintable]
  note B = handleMessage_send_failed [OF example_Process failed_b, of quotePrintable]
  have run_a: "handleMessage ?a (Some exampleMessage) exampleState =
     (Some (SendingToSink [FailedToSend ''e2'' (Result False ''timeout'')]),
      \<lparr>world = [?e1],
       calls = [CallProcess exampleMessage,
                CallValidate exampleEvent1, CallSend ?e1,
                CallValidate exampleEvent2, CallSend exampleEvent2]\<rparr>)"
    using A by (simp add: example_sanitized1 example_sanitized2 eventCalls_def
        exampleState_def errs_a wa)
  have run_b: "handleMessage ?b (Some exampleMessage) exampleState =
     (Some (SendingToSink [FailedToSend ''e1'' (Result False ''refused''),
                           FailedToSend ''e2'' (Result False ''timeout'')]),
      \<lparr>world = [],
       calls = [CallProcess exampleMessage,
                CallValidate exampleEvent1, CallSend ?e1,
                CallValidate exampleEvent2, CallSend exampleEvent2]\<rparr>)"
    using B by (simp add: example_sanitized1 example_sanitized2 eventCalls_def
        exampleState_def errs_b wb)
  have msg_a: "Error quotePrintable (the (fst (handleMessage ?a (Some exampleMessage)
      exampleState))) =
     ''sending events to the sink: ['' @
     [CHR 0x22] @ ''failed to send event with ID e2: timeout'' @ [CHR 0x22] @ '']''"
  proof -
    from A obtain f fs where
      "failedSends ?a (world exampleState) (map (sanitized ?a) [exampleEvent1, exampleEvent2]) =
         f # fs"
      and m: "Error quotePrintable (the (fst (handleMessage ?a (Some exampleMessage)
          exampleState))) =
         ''sending events to the sink: ['' @
         quotePrintable (''failed to send event with ID '' @ fst f @ '': '' @ snd f) @
         concat (map (\<lambda>g. '' '' @
           quotePrintable (''failed to send event with ID '' @ fst g @ '': '' @ snd g)) fs) @
         '']''"
      by blast
    then have "f = (''e2'', ''timeout'')" "fs = []"
      by (simp_all add: example_sanitized1 example_sanitized2 exampleState_def pairs_a)
    with m show ?thesis by (simp add: example_quoted)
  qed
  have msg_b: "Error quotePrintable (the (fst (handleMessage ?b (Some exampleMessage)
      exampleState))) =
     ''sending events to the sink: ['' @
     [CHR 0x22] @ ''failed to send event with ID e1: refused'' @ [CHR 0x22] @ '' '' @
     [CHR 0x22] @ ''failed to send event with ID e2: timeout'' @ [CHR 0x22] @ '']''"
  proof -
    from B obtain f fs where
      "failedSends ?b (world exampleState) (map (sanitized ?b) [exampleEvent1, exampleEvent2]) =
         f # fs"
      and m: "Error quotePrintable (the (fst (handleMessage ?b (Some exampleMessage)
          exampleState))) =
         ''sending events to the sink: ['' @
         quotePrintable (''failed to send event with ID '' @ fst f @ '': '' @ snd f) @
         concat (map (\<lambda>g. '' '' @
           quotePrintable (''failed to send event with ID '' @ fst g @ '': '' @ snd g)) fs) @
         '']''"
      by blast
    then have "f = (''e1'', ''refused'')" "fs = [(''e2'', ''timeout'')]"
      by (simp_all add: example_sanitized1 example_sanitized2 exampleState_def pairs_b)
    with m show ?thesis by (simp add: example_quoted)
  qed
  have compl_a: "completions (calls (snd (handleMessage ?a (Some exampleMessage)
     exampleState))) = []"
    by (simp add: run_a)
  have nack_a: "\<not> IsACK (fst (Send ?a exampleEvent2 [?e1]))" by (simp add: s2)
  have nack_b: "\<not> IsACK (fst (Send ?b ?e1 []))" by (simp add: t1)
  from example_Process [of timeoutSink] example_Process [of failingSink]
    nack_a nack_b run_a run_b compl_a msg_a msg_b
  show ?thesis by blast
qed






text \<open>
  C7: for an event whose validation returns a validation error, an iteration of the loop
  validates once, the event as it was, and then sends the result of one run of the
  sanitizer on that validation error, whether or not that result would pass a validation.
  The sanitizer removes the data schema when \<^verbatim>\<open>dataschema\<close> is among the attributes of the
  validation error, and changes nothing else; with no such attribute the event is sent as
  it was.
\<close>

theorem handleEvent_sanitizes_once:
  assumes "Validate a ev = Some validErrs"
  shows "sanitizeEvent validErrs ev =
      (if ''dataschema'' \<in> fst ` set validErrs then ev\<lparr>DataSchema := None\<rparr> else ev) \<and>
    handleEvent a ev (errs, st) =
      (sanitizeEvent validErrs ev,
       errs @ sendFailure a (sanitizeEvent validErrs ev) (world st),
       \<lparr>world = snd (Send a (sanitizeEvent validErrs ev) (world st)),
        calls = calls st @ [CallValidate ev, CallSend (sanitizeEvent validErrs ev)]\<rparr>)"
proof -
  from assms have "sanitized a ev = sanitizeEvent validErrs ev"
    by (simp add: sanitized_def)
  with handleEvent_eq [of a ev errs st] sanitizeEvent_eq [of validErrs ev]
  show ?thesis by simp
qed

theorem handleEvent_sanitizes_once_witness:
  "Validate (exampleAdapter ackSink) exampleEvent3 =
     Some [(''source'', ''REQUIRED''),
           (''dataschema'', ''if present, MUST adhere to the format specified in RFC 3986'')] \<and>
   Validate (exampleAdapter ackSink) (exampleEvent3\<lparr>DataSchema := None\<rparr>) =
     Some [(''source'', ''REQUIRED'')] \<and>
   handleEvent (exampleAdapter ackSink) exampleEvent3 ([], exampleState) =
     (exampleEvent3\<lparr>DataSchema := None\<rparr>, [],
      \<lparr>world = [exampleEvent3\<lparr>DataSchema := None\<rparr>],
       calls = [CallValidate exampleEvent3, CallSend (exampleEvent3\<lparr>DataSchema := None\<rparr>)]\<rparr>)"
proof -
  let ?a = "exampleAdapter ackSink"
  have v: "Validate ?a exampleEvent3 =
     Some [(''source'', ''REQUIRED''),
           (''dataschema'', ''if present, MUST adhere to the format specified in RFC 3986'')]"
    by (simp add: exampleAdapter_def exampleValidate_def exampleEvent3_def Let_def)
  have v': "Validate ?a (exampleEvent3\<lparr>DataSchema := None\<rparr>) = Some [(''source'', ''REQUIRED'')]"
    by (simp add: exampleAdapter_def exampleValidate_def exampleEvent3_def Let_def)
  have s: "Send ?a e w = (None, w @ [e])" for e w
    by (simp add: exampleAdapter_def ackSink_def)
  show ?thesis
    using handleEvent_sanitizes_once [OF v, of "[]" exampleState] v v'
    by (simp add: sendFailure_eq s exampleState_def)
qed

text \<open>
  C8: when the processor fails on the message, the handler returns the processing error
  with the ID of the message and the error of the processor; the only call it has made is
  the processing: nothing is sent, the message is not completed and the world is as it was.
  The message of the error names the ID of the message.
\<close>

theorem handleMessage_processing_failed:
  assumes "Process a msg = Inl err"
  shows "handleMessage a (Some msg) st =
      (Some (Processing (msgID msg) err), st\<lparr>calls := calls st @ [CallProcess msg]\<rparr>) \<and>
    world (snd (handleMessage a (Some msg) st)) = world st \<and>
    sends (calls (snd (handleMessage a (Some msg) st))) = sends (calls st) \<and>
    completions (calls (snd (handleMessage a (Some msg) st))) = completions (calls st) \<and>
    Error quote (Processing (msgID msg) err) =
      ''processing Service Bus message with ID '' @ msgID msg @ '': '' @ Error quote err"
  using assms
  by (simp add: handleMessage_def sends_append completions_append)

theorem handleMessage_processing_failed_witness:
  "Process (exampleAdapter ackSink) (exampleMessage\<lparr>msgData := ''''\<rparr>) =
     Inl (Opaque ''empty body'') \<and>
   handleMessage (exampleAdapter ackSink) (Some (exampleMessage\<lparr>msgData := ''''\<rparr>)) exampleState =
     (Some (Processing ''m1'' (Opaque ''empty body'')),
      \<lparr>world = [], calls = [CallProcess (exampleMessage\<lparr>msgData := ''''\<rparr>)]\<rparr>) \<and>
   Error id (Processing ''m1'' (Opaque ''empty body'')) =
     ''processing Service Bus message with ID m1: empty body''"
proof -
  have p: "Process (exampleAdapter ackSink) (exampleMessage\<lparr>msgData := ''''\<rparr>) =
     Inl (Opaque ''empty body'')"
    by (simp add: exampleAdapter_def)
  show ?thesis
    using handleMessage_processing_failed [OF p, of exampleState id] p
    by (simp add: exampleState_def exampleMessage_def)
qed


text \<open>C4: a nil message is handled with no error and no effect: no call is made and
  the world is as it was.\<close>

theorem handleMessage_nil: "handleMessage a None st = (None, st)"
  by (simp add: handleMessage_def)

subsection \<open>Resource IDs\<close>

text \<open>
  C5, as the code has it: for a resource ID string that the decoder decodes, parsing succeeds,
  and returns the decoded resource ID, if and only if the resource provider is
  \<^verbatim>\<open>Microsoft.ServiceBus\<close>, the namespace is not empty, the resource type is \<^verbatim>\<open>queues\<close> or
  \<^verbatim>\<open>topics\<close>, a queue has no sub-resource type and a topic has the sub-resource type
  \<^verbatim>\<open>subscriptions\<close>; otherwise it fails with the error whose message is
  \<^verbatim>\<open>resource ID does not refer to a Service Bus entity\<close>.
\<close>

theorem parseServiceBusResourceID_valid:
  assumes "unmarshal resIDStr = Inr resID"
  shows "parseServiceBusResourceID unmarshal resIDStr =
      (if ResourceProvider resID = ''Microsoft.ServiceBus'' \<and> Namespace resID \<noteq> '''' \<and>
          (ResourceType resID = ''queues'' \<or> ResourceType resID = ''topics'') \<and>
          (ResourceType resID = ''queues'' \<longrightarrow> SubResourceType resID = '''') \<and>
          (ResourceType resID = ''topics'' \<longrightarrow> SubResourceType resID = ''subscriptions'')
       then Inr resID else Inl NotServiceBusEntity) \<and>
    Error quote NotServiceBusEntity = ''resource ID does not refer to a Service Bus entity''"
  using assms
  by (auto simp: parseServiceBusResourceID_def resourceProviderServiceBus_def
      resourceTypeQueues_def resourceTypeTopics_def resourceTypeSubscriptions_def)

theorem parseServiceBusResourceID_valid_witness:
  "exampleUnmarshal ''/subscriptions/s/resourceGroups/rg/providers/Microsoft.ServiceBus/namespaces/ns1/queues/q1'' =
     Inr exampleQueue \<and>
   parseServiceBusResourceID exampleUnmarshal
     ''/subscriptions/s/resourceGroups/rg/providers/Microsoft.ServiceBus/namespaces/ns1/queues/q1'' =
     Inr exampleQueue \<and>
   exampleUnmarshal ''/subscriptions/s/resourceGroups/rg/providers/Microsoft.ServiceBus/namespaces/ns1/topics/t1/subscriptions/s1'' =
     Inr exampleSubscription \<and>
   parseServiceBusResourceID exampleUnmarshal
     ''/subscriptions/s/resourceGroups/rg/providers/Microsoft.ServiceBus/namespaces/ns1/topics/t1/subscriptions/s1'' =
     Inr exampleSubscription"
proof -
  have q: "exampleUnmarshal ''/subscriptions/s/resourceGroups/rg/providers/Microsoft.ServiceBus/namespaces/ns1/queues/q1'' =
     Inr exampleQueue"
    by (simp add: exampleUnmarshal_def)
  have t: "exampleUnmarshal ''/subscriptions/s/resourceGroups/rg/providers/Microsoft.ServiceBus/namespaces/ns1/topics/t1/subscriptions/s1'' =
     Inr exampleSubscription"
    by (simp add: exampleUnmarshal_def)
  show ?thesis
    using parseServiceBusResourceID_valid [of exampleUnmarshal _ exampleQueue, OF q]
      parseServiceBusResourceID_valid [of exampleUnmarshal _ exampleSubscription, OF t] q t
    by (simp add: exampleQueue_def exampleSubscription_def)
qed

text \<open>
  C5 as it is stated does not hold: the three conditions on the resource type and the
  sub-resource type alone do not decide the parsing: a decoded queue with an empty namespace, and a decoded queue of another
  resource provider, satisfy them and are rejected.
\<close>

theorem parseServiceBusResourceID_claim_counterexample:
  "exampleUnmarshal ''/subscriptions/s/resourceGroups/rg/providers/Microsoft.ServiceBus/queues/q1'' =
     Inr exampleNoNamespace \<and>
   \<not> (\<not> isl (parseServiceBusResourceID exampleUnmarshal
           ''/subscriptions/s/resourceGroups/rg/providers/Microsoft.ServiceBus/queues/q1'') \<longleftrightarrow>
        (ResourceType exampleNoNamespace = ''queues'' \<or> ResourceType exampleNoNamespace = ''topics'') \<and>
        (ResourceType exampleNoNamespace = ''queues'' \<longrightarrow> SubResourceType exampleNoNamespace = '''') \<and>
        (ResourceType exampleNoNamespace = ''topics'' \<longrightarrow>
           SubResourceType exampleNoNamespace = ''subscriptions'')) \<and>
   exampleUnmarshal ''/subscriptions/s/resourceGroups/rg/providers/Microsoft.EventHub/namespaces/ns1/queues/q1'' =
     Inr exampleOtherProvider \<and>
   \<not> (\<not> isl (parseServiceBusResourceID exampleUnmarshal
           ''/subscriptions/s/resourceGroups/rg/providers/Microsoft.EventHub/namespaces/ns1/queues/q1'') \<longleftrightarrow>
        (ResourceType exampleOtherProvider = ''queues'' \<or> ResourceType exampleOtherProvider = ''topics'') \<and>
        (ResourceType exampleOtherProvider = ''queues'' \<longrightarrow> SubResourceType exampleOtherProvider = '''') \<and>
        (ResourceType exampleOtherProvider = ''topics'' \<longrightarrow>
           SubResourceType exampleOtherProvider = ''subscriptions''))"
  by (simp add: parseServiceBusResourceID_def exampleUnmarshal_def exampleNoNamespace_def
      exampleOtherProvider_def exampleQueue_def resourceProviderServiceBus_def
      resourceTypeQueues_def resourceTypeTopics_def resourceTypeSubscriptions_def)

text \<open>
  C6: the entity path of a queue is the queue's name, that of a topic is the topic's name,
  \<^verbatim>\<open>/Subscriptions/\<close> and the subscription's name, and that of a resource ID of any other
  resource type is the empty string.
\<close>

theorem entityPath_cases:
  "(ResourceType entityID = ''queues'' \<longrightarrow> entityPath entityID = ResourceName entityID) \<and>
   (ResourceType entityID = ''topics'' \<longrightarrow>
      entityPath entityID = ResourceName entityID @ ''/Subscriptions/'' @ SubResourceName entityID) \<and>
   (ResourceType entityID \<noteq> ''queues'' \<and> ResourceType entityID \<noteq> ''topics'' \<longrightarrow>
      entityPath entityID = '''')"
  by (simp add: entityPath_def resourceTypeQueues_def resourceTypeTopics_def)

theorem entityPath_cases_witness:
  "ResourceType exampleQueue = ''queues'' \<and> entityPath exampleQueue = ''q1'' \<and>
   ResourceType exampleSubscription = ''topics'' \<and>
   entityPath exampleSubscription = ''t1/Subscriptions/s1'' \<and>
   ResourceType (exampleQueue\<lparr>ResourceType := ''eventhubs''\<rparr>) = ''eventhubs'' \<and>
   entityPath (exampleQueue\<lparr>ResourceType := ''eventhubs''\<rparr>) = ''''"
  using entityPath_cases [of exampleQueue] entityPath_cases [of exampleSubscription]
    entityPath_cases [of "exampleQueue\<lparr>ResourceType := ''eventhubs''\<rparr>"]
  by (simp add: exampleQueue_def exampleSubscription_def)

subsection \<open>Authentication from the environment\<close>

text \<open>
  C10: when the key name or the key value is set in the environment (one of them is
  enough), the connection string is composed from the namespace, the endpoint suffix, the
  key name and the key value as they are, the one that is not set being empty, and the
  entity path; the connection string of the environment plays no part: the result is the
  same whatever that variable holds.
\<close>

theorem connectionStringFromEnvironment_key_precedence:
  assumes "getenv envKeyName \<noteq> '''' \<or> getenv envKeyValue \<noteq> ''''"
  shows "connectionStringFromEnvironment suffix getenv namespace entPath =
      ''Endpoint=sb://'' @ namespace @ ''.'' @ suffix @
      '';SharedAccessKeyName='' @ getenv envKeyName @
      '';SharedAccessKey='' @ getenv envKeyValue @
      '';EntityPath='' @ entPath \<and>
    connectionStringFromEnvironment suffix (getenv(envConnStr := other)) namespace entPath =
      connectionStringFromEnvironment suffix getenv namespace entPath"
  using assms
  by (auto simp: connectionStringFromEnvironment_def Let_def envKeyName_def envKeyValue_def
      envConnStr_def)

theorem connectionStringFromEnvironment_key_precedence_witness:
  "exampleEnv envKeyName = ''RootManageSharedAccessKey'' \<and> exampleEnv envKeyValue = '''' \<and>
   exampleEnv envConnStr = ''Endpoint=sb://other.example'' \<and>
   connectionStringFromEnvironment ''servicebus.windows.net'' exampleEnv ''ns1'' ''q1'' =
     ''Endpoint=sb://ns1.servicebus.windows.net;SharedAccessKeyName=RootManageSharedAccessKey;SharedAccessKey=;EntityPath=q1''"
proof -
  have kn: "exampleEnv envKeyName = ''RootManageSharedAccessKey''"
    and kv: "exampleEnv envKeyValue = ''''"
    and cs: "exampleEnv envConnStr = ''Endpoint=sb://other.example''"
    by (simp_all add: exampleEnv_def envKeyName_def envKeyValue_def envConnStr_def)
  have k: "exampleEnv envKeyName \<noteq> '''' \<or> exampleEnv envKeyValue \<noteq> ''''"
    by (simp add: kn)
  show ?thesis
    using connectionStringFromEnvironment_key_precedence
      [OF k, of "''servicebus.windows.net''" "''ns1''" "''q1''" "''''"]
    by (simp add: kn kv cs)
qed


text \<open>
  C9: with the key name and the key value both set, the connection string is the one
  composed from them.  The binding by connection string is tried first: when it succeeds,
  the option returns nil and leaves the namespace as that binding has left it, whatever the
  environment binding would do.  When it fails, the environment binding is applied to the
  namespace the first attempt has left, and its success is the result.  When both fail,
  the error holds both errors and its message prints both.
\<close>

theorem namespaceFromEnvironment_fallback:
  "(getenv envKeyName \<noteq> '''' \<and> getenv envKeyValue \<noteq> '''' \<longrightarrow>
      connectionStringFromEnvironment suffix getenv (Namespace entityID) (entityPath entityID) =
        ''Endpoint=sb://'' @ Namespace entityID @ ''.'' @ suffix @
        '';SharedAccessKeyName='' @ getenv envKeyName @
        '';SharedAccessKey='' @ getenv envKeyValue @
        '';EntityPath='' @ entityPath entityID) \<and>
   (withConnectionString
      (connectionStringFromEnvironment suffix getenv (Namespace entityID) (entityPath entityID))
      ns = (None, afterSAS) \<longrightarrow>
    namespaceFromEnvironment suffix getenv withConnectionString withEnvironmentBinding entityID ns =
      (None, afterSAS)) \<and>
   (withConnectionString
      (connectionStringFromEnvironment suffix getenv (Namespace entityID) (entityPath entityID))
      ns = (Some sasErr, afterSAS) \<and>
    withEnvironmentBinding (Namespace entityID) afterSAS = (None, afterAAD) \<longrightarrow>
    namespaceFromEnvironment suffix getenv withConnectionString withEnvironmentBinding entityID ns =
      (None, afterAAD)) \<and>
   (withConnectionString
      (connectionStringFromEnvironment suffix getenv (Namespace entityID) (entityPath entityID))
      ns = (Some sasErr, afterSAS) \<and>
    withEnvironmentBinding (Namespace entityID) afterSAS = (Some aadErr, afterAAD) \<longrightarrow>
    namespaceFromEnvironment suffix getenv withConnectionString withEnvironmentBinding entityID ns =
      (Some (NeitherAuth aadErr sasErr), afterAAD) \<and>
    Error quote (NeitherAuth aadErr sasErr) =
      ''neither Azure Active Directory nor SAS token provider could be built - AAD error: '' @
      Error quote aadErr @ '', SAS error: '' @ Error quote sasErr)"
  by (simp add: namespaceFromEnvironment_def connectionStringFromEnvironment_def Let_def)

lemma example_connStr:
  "connectionStringFromEnvironment ''servicebus.windows.net'' keyPairEnv
     (Namespace exampleQueue) (entityPath exampleQueue) =
     ''Endpoint=sb://ns1.servicebus.windows.net;SharedAccessKeyName=RootManageSharedAccessKey;SharedAccessKey=c2VjcmV0;EntityPath=q1''"
  by (simp add: connectionStringFromEnvironment_def keyPairEnv_def envKeyName_def
      envKeyValue_def envConnStr_def exampleQueue_def entityPath_def resourceTypeQueues_def)

lemma example_no_connStr:
  "connectionStringFromEnvironment ''servicebus.windows.net'' noEnv
     (Namespace exampleQueue) (entityPath exampleQueue) = ''''"
  by (simp add: connectionStringFromEnvironment_def noEnv_def)

theorem namespaceFromEnvironment_fallback_witness:
  "namespaceFromEnvironment ''servicebus.windows.net'' keyPairEnv exampleSAS failingAAD
     exampleQueue [] =
     (None, [''SAS Endpoint=sb://ns1.servicebus.windows.net;SharedAccessKeyName=RootManageSharedAccessKey;SharedAccessKey=c2VjcmV0;EntityPath=q1'']) \<and>
   namespaceFromEnvironment ''servicebus.windows.net'' noEnv exampleSAS exampleAAD
     exampleQueue [] = (None, [''AAD ns1'']) \<and>
   namespaceFromEnvironment ''servicebus.windows.net'' noEnv exampleSAS failingAAD
     exampleQueue [] =
     (Some (NeitherAuth (Opaque ''missing AZURE_TENANT_ID'')
        (Opaque ''connection string is either blank or malformed'')), []) \<and>
   Error id (NeitherAuth (Opaque ''missing AZURE_TENANT_ID'')
        (Opaque ''connection string is either blank or malformed'')) =
     ''neither Azure Active Directory nor SAS token provider could be built - AAD error: missing AZURE_TENANT_ID, SAS error: connection string is either blank or malformed''"
proof -
  have sas_ok: "exampleSAS
      (connectionStringFromEnvironment ''servicebus.windows.net'' keyPairEnv
         (Namespace exampleQueue) (entityPath exampleQueue)) [] =
      (None, [''SAS Endpoint=sb://ns1.servicebus.windows.net;SharedAccessKeyName=RootManageSharedAccessKey;SharedAccessKey=c2VjcmV0;EntityPath=q1''])"
    by (simp add: example_connStr exampleSAS_def)
  have sas_fails: "exampleSAS
      (connectionStringFromEnvironment ''servicebus.windows.net'' noEnv
         (Namespace exampleQueue) (entityPath exampleQueue)) [] =
      (Some (Opaque ''connection string is either blank or malformed''), [])"
    by (simp add: example_no_connStr exampleSAS_def)
  have aad_ok: "exampleAAD (Namespace exampleQueue) [] = (None, [''AAD ns1''])"
    by (simp add: exampleAAD_def exampleQueue_def)
  have aad_fails: "failingAAD (Namespace exampleQueue) [] =
      (Some (Opaque ''missing AZURE_TENANT_ID''), [])"
    by (simp add: failingAAD_def)
  show ?thesis
    using namespaceFromEnvironment_fallback
        [where getenv = keyPairEnv and suffix = "''servicebus.windows.net''"
          and entityID = exampleQueue and withConnectionString = exampleSAS and ns = "[]"
          and withEnvironmentBinding = failingAAD and quote = id]
      namespaceFromEnvironment_fallback
        [where getenv = noEnv and suffix = "''servicebus.windows.net''"
          and entityID = exampleQueue and withConnectionString = exampleSAS and ns = "[]"
          and afterSAS = "[]" and withEnvironmentBinding = exampleAAD
          and sasErr = "Opaque ''connection string is either blank or malformed''"
          and afterAAD = "[''AAD ns1'']" and quote = id]
      namespaceFromEnvironment_fallback
        [where getenv = noEnv and suffix = "''servicebus.windows.net''"
          and entityID = exampleQueue and withConnectionString = exampleSAS and ns = "[]"
          and afterSAS = "[]" and withEnvironmentBinding = failingAAD
          and sasErr = "Opaque ''connection string is either blank or malformed''"
          and aadErr = "Opaque ''missing AZURE_TENANT_ID''" and afterAAD = "[]" and quote = id]
      sas_ok sas_fails aad_ok aad_fails
    by simp
qed


end
